theory Spec2Isabelle
  imports Main
begin

section \<open>The asynchronous base client of the dictionary API\<close>

text \<open>
  A shallow embedding of \<^verbatim>\<open>freedictionaryapi/clients/base_async_client.py\<close>:
  class \<^verbatim>\<open>BaseAsyncDictionaryApiClient\<close> with its abstract method
  \<^verbatim>\<open>fetch_api_response\<close> and its three coroutines \<^verbatim>\<open>fetch_json\<close>,
  \<^verbatim>\<open>fetch_parser\<close> and \<^verbatim>\<open>fetch_word\<close>.

  Each coroutine awaits its callee before it goes on, so one call is a sequential program.
  A call that can raise returns a sum: \<open>Inl e\<close> is the exception \<open>e\<close> raised, \<open>Inr v\<close>
  the value \<open>v\<close> returned. A call that can read or write anything outside its arguments
  (the fields of \<^verbatim>\<open>self\<close>, the network, the handlers of the logger) takes the state
  \<open>'s\<close> and returns the state it leaves.
\<close>

type_synonym ('s, 'e, 'a) effect = "'s \<Rightarrow> ('e + 'a) \<times> 's"

subsection \<open>What the three coroutines call\<close>

text \<open>
  The methods and names the bodies of the coroutines refer to. Python looks a method up on
  \<^verbatim>\<open>self\<close> when it is called, so each one is a field of the client:
  \<^item> \<open>generate_url\<close> is \<^verbatim>\<open>self._generate_url(word, language_code)\<close>, inherited from
    \<^verbatim>\<open>BaseDictionaryApiClientInterface\<close>; it returns the url and the language code used;
  \<^item> \<open>logger_info\<close> is the call \<^verbatim>\<open>logger.info(f'...')\<close> of line 122. The message is
    an f-string of \<^verbatim>\<open>word!r\<close>, \<^verbatim>\<open>language_code!r\<close> and \<^verbatim>\<open>url!r\<close>, so the
    field takes these three values. The logging module hands a failing handler to
    \<^verbatim>\<open>Handler.handleError\<close>, so the call returns nothing and does not raise;
  \<^item> \<open>fetch_api_response\<close> is the abstract method of lines 31 to 102, which a concrete
    client implements: the status code and the decoded body for a url;
  \<^item> \<open>analyze_response\<close> is \<^verbatim>\<open>self._analyze_response(url, status, body)\<close>, inherited
    from \<^verbatim>\<open>BaseDictionaryApiClientInterface\<close>;
  \<^item> \<open>DictionaryApiParser\<close> is the constructor of the class imported from
    \<^verbatim>\<open>..parsers\<close>, and \<open>parser_word\<close> its attribute \<^verbatim>\<open>.word\<close>.

  The type variables: \<open>'l\<close> is the enumeration \<^verbatim>\<open>LanguageCodes\<close>, \<open>'j\<close> the decoded
  JSON (\<^verbatim>\<open>typing.Any\<close>), \<open>'p\<close> the parser objects, \<open>'w\<close> the class \<^verbatim>\<open>Word\<close>, and
  \<open>'e\<close> the exceptions.

  Modelled from the spec: the class \<^verbatim>\<open>DictionaryApiParser\<close> is not among the sources. The
  specification (3, 4.4) has parsing pure, with no knowledge of HTTP, and failing with a
  parsing error on a malformed body: the constructor and the accessor are functions of
  their argument alone that may raise.
\<close>

record ('s, 'e, 'l, 'j, 'p, 'w) client =
  generate_url :: "string \<Rightarrow> 'l option \<Rightarrow> ('s, 'e, string \<times> 'l) effect"
  logger_info :: "string \<Rightarrow> 'l \<Rightarrow> string \<Rightarrow> 's \<Rightarrow> 's"
  fetch_api_response :: "string \<Rightarrow> ('s, 'e, int \<times> 'j) effect"
  analyze_response :: "string \<Rightarrow> int \<Rightarrow> 'j \<Rightarrow> ('s, 'e, 'j) effect"
  DictionaryApiParser :: "'j \<Rightarrow> 'e + 'p"
  parser_word :: "'p \<Rightarrow> 'e + 'w"

subsection \<open>The coroutines\<close>

text \<open>
  \<^verbatim>\<open>fetch_json\<close>, lines 104 to 129. The tuple assignment of line 120 rebinds
  \<^verbatim>\<open>language_code\<close> to the code \<^verbatim>\<open>_generate_url\<close> returned (\<open>language_code'\<close>
  below). No statement is inside a \<^verbatim>\<open>try\<close>: an exception of a callee leaves the
  coroutine at once, with the state as the callee left it.
\<close>

definition fetch_json ::
  "('s, 'e, 'l, 'j, 'p, 'w) client \<Rightarrow> string \<Rightarrow> 'l option \<Rightarrow> ('s, 'e, 'j) effect" where
  "fetch_json self word language_code s0 =
     (case generate_url self word language_code s0 of
        (Inl e, s1) \<Rightarrow> (Inl e, s1)
      | (Inr (url, language_code'), s1) \<Rightarrow>
          (let s2 = logger_info self word language_code' url s1 in
           case fetch_api_response self url s2 of
             (Inl e, s3) \<Rightarrow> (Inl e, s3)
           | (Inr (response_status_code, json_response), s3) \<Rightarrow>
               analyze_response self url response_status_code json_response s3))"

text \<open>\<^verbatim>\<open>fetch_parser\<close>, lines 131 to 148.\<close>

definition fetch_parser ::
  "('s, 'e, 'l, 'j, 'p, 'w) client \<Rightarrow> string \<Rightarrow> 'l option \<Rightarrow> ('s, 'e, 'p) effect" where
  "fetch_parser self word language_code s0 =
     (case fetch_json self word language_code s0 of
        (Inl e, s1) \<Rightarrow> (Inl e, s1)
      | (Inr json_response, s1) \<Rightarrow> (DictionaryApiParser self json_response, s1))"

text \<open>\<^verbatim>\<open>fetch_word\<close>, lines 150 to 168.\<close>

definition fetch_word ::
  "('s, 'e, 'l, 'j, 'p, 'w) client \<Rightarrow> string \<Rightarrow> 'l option \<Rightarrow> ('s, 'e, 'w) effect" where
  "fetch_word self word language_code s0 =
     (case fetch_parser self word language_code s0 of
        (Inl e, s1) \<Rightarrow> (Inl e, s1)
      | (Inr parser, s1) \<Rightarrow> (parser_word self parser, s1))"

subsection \<open>Observing the calls of a run\<close>

text \<open>
  To say in which order the collaborators are called, with what, and how often, a client
  is wrapped: \<open>traced self\<close> behaves as \<open>self\<close> on the state and appends one entry to a
  list of calls, carried beside the state, each time one of its four stateful methods is
  called. The coroutines above are not touched: they run on the wrapped client as on any
  other.
\<close>

datatype ('l, 'j) call =
    GenerateUrl string "'l option"
  | LoggerInfo string 'l string
  | FetchApiResponse string
  | AnalyzeResponse string int 'j

definition recording :: "'c \<Rightarrow> ('s \<Rightarrow> 'r \<times> 's) \<Rightarrow> 's \<times> 'c list \<Rightarrow> 'r \<times> 's \<times> 'c list" where
  "recording c f = (\<lambda>(s, calls). case f s of (r, s') \<Rightarrow> (r, s', calls @ [c]))"

definition traced ::
  "('s, 'e, 'l, 'j, 'p, 'w) client \<Rightarrow> ('s \<times> ('l, 'j) call list, 'e, 'l, 'j, 'p, 'w) client" where
  "traced self =
     \<lparr> generate_url = (\<lambda>word language_code.
         recording (GenerateUrl word language_code) (generate_url self word language_code)),
       logger_info = (\<lambda>word language_code url (s, calls).
         (logger_info self word language_code url s, calls @ [LoggerInfo word language_code url])),
       fetch_api_response = (\<lambda>url.
         recording (FetchApiResponse url) (fetch_api_response self url)),
       analyze_response = (\<lambda>url status body.
         recording (AnalyzeResponse url status body) (analyze_response self url status body)),
       DictionaryApiParser = DictionaryApiParser self,
       parser_word = parser_word self \<rparr>"



text \<open>The calls one run makes, started in state \<open>s\<close> with nothing recorded yet.\<close>

definition calls_of ::
  "(('s \<times> ('l, 'j) call list, 'e, 'l, 'j, 'p, 'w) client \<Rightarrow> string \<Rightarrow> 'l option
      \<Rightarrow> ('s \<times> ('l, 'j) call list, 'e, 'a) effect)
    \<Rightarrow> ('s, 'e, 'l, 'j, 'p, 'w) client \<Rightarrow> string \<Rightarrow> 'l option \<Rightarrow> 's \<Rightarrow> ('l, 'j) call list" where
  "calls_of fetch self word language_code s =
     snd (snd (fetch (traced self) word language_code (s, [])))"

subsection \<open>The inherited methods, as the specification has them\<close>

text \<open>
  \<^verbatim>\<open>_generate_url\<close> and \<^verbatim>\<open>_analyze_response\<close> are methods of
  \<^verbatim>\<open>BaseDictionaryApiClientInterface\<close>, whose module is not among the sources. Where a
  property depends on what they compute, they are taken from the specification.
\<close>

datatype json =
    JNull
  | JBool bool
  | JInt int
  | JStr string
  | JList "json list"
  | JDict "(string \<times> json) list"

text \<open>
  The error taxonomy of the specification (7), and \<open>TransportFailure\<close> for whatever the
  transport raises itself (a connection error, a timeout).
\<close>

datatype 'x error =
    UnsupportedLanguageError
  | WordNotFoundError string
  | DictionaryApiError int string json
  | ParsingError
  | TransportFailure 'x

text \<open>
  Modelled from the spec: \<^verbatim>\<open>_generate_url\<close> is not among the sources. The specification
  (4.2) has \<^verbatim>\<open>build(word, language_code) -> (url, resolved_language_code)\<close>, a pure
  function with no side effects, whose optional language code defaults via the language
  registry when it is absent. The registry's default and the composition of the endpoint
  (the template and the percent-encoding) are parameters.
\<close>

definition spec_generate_url ::
  "'l \<Rightarrow> (string \<Rightarrow> 'l \<Rightarrow> string) \<Rightarrow> string \<Rightarrow> 'l option \<Rightarrow> ('s, 'e, string \<times> 'l) effect" where
  "spec_generate_url default_language_code endpoint word language_code s =
     (let resolved = (case language_code of None \<Rightarrow> default_language_code | Some l \<Rightarrow> l)
      in (Inr (endpoint word resolved, resolved), s))"

text \<open>
  Modelled from the spec: \<^verbatim>\<open>_analyze_response\<close> is not among the sources. The
  specification (4.3) has \<^verbatim>\<open>analyze(url, status_code, decoded_body)\<close> return the body
  unchanged for a status in 200 to 299, raise \<^verbatim>\<open>WordNotFoundError\<close> with the url for
  404, and raise \<^verbatim>\<open>DictionaryApiError\<close> with the status code, the url and an extracted
  message for any other status; the message is the body's "message" field if present,
  else a generic "unexpected error" string. Its side effect is to log the outcome with
  the url and the status code; the logger is a parameter.
\<close>

definition generic_message :: json where
  "generic_message = JStr ''unexpected error''"

definition extract_message :: "json \<Rightarrow> json" where
  "extract_message decoded_body =
     (case decoded_body of
        JDict members \<Rightarrow>
          (case map_of members ''message'' of Some m \<Rightarrow> m | None \<Rightarrow> generic_message)
      | _ \<Rightarrow> generic_message)"

definition spec_analyze_response ::
  "(bool \<Rightarrow> string \<Rightarrow> int \<Rightarrow> 's \<Rightarrow> 's) \<Rightarrow> string \<Rightarrow> int \<Rightarrow> json \<Rightarrow> ('s, 'x error, json) effect" where
  "spec_analyze_response log_outcome url status_code decoded_body s =
     (if 200 \<le> status_code \<and> status_code \<le> 299
        then (Inr decoded_body, log_outcome True url status_code s)
      else if status_code = 404
        then (Inl (WordNotFoundError url), log_outcome False url status_code s)
      else (Inl (DictionaryApiError status_code url (extract_message decoded_body)),
            log_outcome False url status_code s))"

subsection \<open>A concrete client\<close>

text \<open>
  A concrete client on which the properties below are evaluated. Its state is a pair: the
  one field of the client object (a label given at construction) and the number of
  requests the network has served. Its transport answers from a table of canned
  responses and fails with a transport error for a url the table lacks; either way the
  network has served one more request. Its parser keeps the body and reads the word of
  the first entry.
\<close>

definition canned_transport ::
  "(string \<times> int \<times> json) list \<Rightarrow> string \<Rightarrow> (string \<times> nat, string error, int \<times> json) effect" where
  "canned_transport table url s =
     (case map_of table url of
        None \<Rightarrow> (Inl (TransportFailure ''connection refused''), fst s, Suc (snd s))
      | Some response \<Rightarrow> (Inr response, fst s, Suc (snd s)))"

definition sample_endpoint :: "string \<Rightarrow> string \<Rightarrow> string" where
  "sample_endpoint word locale = ''/entries/'' @ locale @ ''/'' @ word"

definition sample_parser :: "json \<Rightarrow> string error + json" where
  "sample_parser body = (case body of JList (entry # entries) \<Rightarrow> Inr body | _ \<Rightarrow> Inl ParsingError)"

definition sample_word :: "json \<Rightarrow> string error + string" where
  "sample_word parser =
     (case parser of
        JList (JDict members # entries) \<Rightarrow>
          (case map_of members ''word'' of Some (JStr w) \<Rightarrow> Inr w | _ \<Rightarrow> Inl ParsingError)
      | _ \<Rightarrow> Inl ParsingError)"

definition sample_client ::
  "(string \<times> int \<times> json) list
    \<Rightarrow> (string \<times> nat, string error, string, json, json, string) client" where
  "sample_client table =
     \<lparr> generate_url = spec_generate_url ''en'' sample_endpoint,
       logger_info = (\<lambda>word language_code url s. s),
       fetch_api_response = canned_transport table,
       analyze_response = spec_analyze_response (\<lambda>ok url status_code s. s),
       DictionaryApiParser = sample_parser,
       parser_word = sample_word \<rparr>"

definition hello_body :: json where
  "hello_body = JList [JDict [(''word'', JStr ''hello''), (''meanings'', JList [])]]"

definition sample_table :: "(string \<times> int \<times> json) list" where
  "sample_table =
     [(''/entries/en/hello'', 200, hello_body),
      (''/entries/en/helo'', 404, JDict [(''message'', JStr ''No Definitions Found'')]),
      (''/entries/fr/hello'', 500, JDict [(''message'', JStr ''x'')]),
      (''/entries/fr/helo'', 500, JDict [])]"

section \<open>Properties of the coroutines\<close>

subsection \<open>A traced run\<close>

text \<open>What the wrapped client does, method by method.\<close>

lemma traced_sel:
  "generate_url (traced self) w lc (s, calls) =
     (case generate_url self w lc s of (r, s') \<Rightarrow> (r, s', calls @ [GenerateUrl w lc]))"
  "logger_info (traced self) w l u (s, calls) = (logger_info self w l u s, calls @ [LoggerInfo w l u])"
  "fetch_api_response (traced self) u (s, calls) =
     (case fetch_api_response self u s of (r, s') \<Rightarrow> (r, s', calls @ [FetchApiResponse u]))"
  "analyze_response (traced self) u st b (s, calls) =
     (case analyze_response self u st b s of (r, s') \<Rightarrow> (r, s', calls @ [AnalyzeResponse u st b]))"
  "DictionaryApiParser (traced self) = DictionaryApiParser self"
  "parser_word (traced self) = parser_word self"
  by (simp_all add: traced_def recording_def)

text \<open>
  A run of \<^verbatim>\<open>fetch_json\<close> on the wrapped client: the result and the state are those of
  the client itself, and the calls recorded depend on how far the run got.
\<close>

lemma fetch_json_traced:
  "fetch_json (traced self) w lc (s0, calls) =
     (case generate_url self w lc s0 of
        (Inl e, s1) \<Rightarrow> (Inl e, s1, calls @ [GenerateUrl w lc])
      | (Inr (url, l), s1) \<Rightarrow>
          (case fetch_api_response self url (logger_info self w l url s1) of
             (Inl e, s3) \<Rightarrow>
               (Inl e, s3, calls @ [GenerateUrl w lc, LoggerInfo w l url, FetchApiResponse url])
           | (Inr (st, b), s3) \<Rightarrow>
               (case analyze_response self url st b s3 of
                  (r, s4) \<Rightarrow>
                    (r, s4, calls @ [GenerateUrl w lc, LoggerInfo w l url, FetchApiResponse url,
                                     AnalyzeResponse url st b]))))"
  by (simp add: fetch_json_def traced_sel split: prod.splits sum.splits)

lemma fetch_parser_traced:
  "fetch_parser (traced self) w lc t =
     (case fetch_json (traced self) w lc t of
        (Inl e, t') \<Rightarrow> (Inl e, t')
      | (Inr j, t') \<Rightarrow> (DictionaryApiParser self j, t'))"
  by (simp add: fetch_parser_def traced_sel split: prod.splits sum.splits)

lemma fetch_word_traced:
  "fetch_word (traced self) w lc t =
     (case fetch_parser (traced self) w lc t of
        (Inl e, t') \<Rightarrow> (Inl e, t')
      | (Inr p, t') \<Rightarrow> (parser_word self p, t'))"
  by (simp add: fetch_word_def traced_sel split: prod.splits sum.splits)

lemma calls_of_fetch_json:
  "calls_of fetch_json self w lc s0 =
     (case generate_url self w lc s0 of
        (Inl e, s1) \<Rightarrow> [GenerateUrl w lc]
      | (Inr (url, l), s1) \<Rightarrow>
          (case fetch_api_response self url (logger_info self w l url s1) of
             (Inl e, s3) \<Rightarrow> [GenerateUrl w lc, LoggerInfo w l url, FetchApiResponse url]
           | (Inr (st, b), s3) \<Rightarrow>
               [GenerateUrl w lc, LoggerInfo w l url, FetchApiResponse url,
                AnalyzeResponse url st b]))"
  by (simp add: calls_of_def fetch_json_traced split: prod.splits sum.splits)

text \<open>\<^verbatim>\<open>fetch_parser\<close> and \<^verbatim>\<open>fetch_word\<close> make the calls of \<^verbatim>\<open>fetch_json\<close> and no other.\<close>

lemma calls_of_fetch_parser:
  "calls_of fetch_parser self w lc s = calls_of fetch_json self w lc s"
  by (simp add: calls_of_def fetch_parser_traced split: prod.splits sum.splits)

lemma calls_of_fetch_word:
  "calls_of fetch_word self w lc s = calls_of fetch_json self w lc s"
  by (simp add: calls_of_def fetch_word_traced fetch_parser_traced split: prod.splits sum.splits)

subsection \<open>State and result of the two outer coroutines\<close>







text \<open>The definitions that evaluate the concrete client.\<close>

lemmas sample_defs =
  sample_client_def sample_table_def spec_generate_url_def sample_endpoint_def
  canned_transport_def spec_analyze_response_def extract_message_def generic_message_def
  sample_parser_def sample_word_def hello_body_def Let_def

subsection \<open>The pipeline of \<^verbatim>\<open>fetch_json\<close>\<close>

text \<open>
  Claim C1. For every word and every optional language code, \<^verbatim>\<open>fetch_json\<close> first
  resolves the url and the language code with the URL builder, then calls the transport
  primitive \<^verbatim>\<open>fetch_api_response\<close> exactly once, with exactly that url, then applies
  the response analyzer to that same url and to the status code and the decoded body the
  transport returned, and returns the analyzer's result unchanged. The calls recorded
  are these, in this order, with the log entry of line 122 between the first two; the
  body reaches nothing but the analyzer.
\<close>

theorem fetch_json_pipeline:
  assumes "generate_url self word language_code s0 = (Inr (url, resolved), s1)"
    and "fetch_api_response self url (logger_info self word resolved url s1)
           = (Inr (status_code, body), s3)"
    and "analyze_response self url status_code body s3 = (result, s4)"
  shows "fetch_json self word language_code s0 = (result, s4) \<and>
         calls_of fetch_json self word language_code s0 =
           [GenerateUrl word language_code, LoggerInfo word resolved url,
            FetchApiResponse url, AnalyzeResponse url status_code body]"
proof
  show "fetch_json self word language_code s0 = (result, s4)"
    using assms by (simp add: fetch_json_def)
  show "calls_of fetch_json self word language_code s0 =
           [GenerateUrl word language_code, LoggerInfo word resolved url,
            FetchApiResponse url, AnalyzeResponse url status_code body]"
    using assms by (simp add: calls_of_def fetch_json_traced)
qed

theorem fetch_json_pipeline_witness:
  "fetch_json (sample_client sample_table) ''hello'' None (''c'', 0) = (Inr hello_body, ''c'', 1) \<and>
   calls_of fetch_json (sample_client sample_table) ''hello'' None (''c'', 0) =
     [GenerateUrl ''hello'' None, LoggerInfo ''hello'' ''en'' ''/entries/en/hello'',
      FetchApiResponse ''/entries/en/hello'', AnalyzeResponse ''/entries/en/hello'' 200 hello_body]"
  using fetch_json_pipeline [of "sample_client sample_table" "''hello''" None "(''c'', 0)"
      "''/entries/en/hello''" "''en''" "(''c'', 0)" 200 hello_body "(''c'', 1)"
      "Inr hello_body" "(''c'', 1)"]
  by (simp add: sample_client_def sample_table_def spec_generate_url_def sample_endpoint_def
      canned_transport_def spec_analyze_response_def)

subsection \<open>The status policy\<close>

text \<open>
  Claim C2. With the response analyzer of the specification, for every word, optional
  language code and pair of status code and decoded body the transport returns:
  \<^verbatim>\<open>fetch_json\<close> returns the decoded body unchanged when the status code is in 200 to
  299, raises \<^verbatim>\<open>WordNotFoundError\<close> when it is 404, and for every other status
  raises \<^verbatim>\<open>DictionaryApiError\<close> with the status code, the url the request went to,
  and the extracted message: the "message" field of the body if present, else the
  generic string.
\<close>

theorem fetch_json_status_policy:
  assumes "generate_url self word language_code s0 = (Inr (url, resolved), s1)"
    and "fetch_api_response self url (logger_info self word resolved url s1)
           = (Inr (status_code, body), s3)"
  shows "fst (fetch_json (self\<lparr>analyze_response := spec_analyze_response log_outcome\<rparr>)
                word language_code s0) =
           (if 200 \<le> status_code \<and> status_code \<le> 299 then Inr body
            else if status_code = 404 then Inl (WordNotFoundError url)
            else Inl (DictionaryApiError status_code url (extract_message body)))"
  using assms by (simp add: fetch_json_def spec_analyze_response_def)

theorem fetch_json_status_policy_witness:
  "fst (fetch_json ((sample_client sample_table)\<lparr>analyze_response := spec_analyze_response (\<lambda>ok url st s. s)\<rparr>)
          ''hello'' None (''c'', 0)) = Inr hello_body \<and>
   fst (fetch_json ((sample_client sample_table)\<lparr>analyze_response := spec_analyze_response (\<lambda>ok url st s. s)\<rparr>)
          ''helo'' None (''c'', 0)) = Inl (WordNotFoundError ''/entries/en/helo'') \<and>
   fst (fetch_json ((sample_client sample_table)\<lparr>analyze_response := spec_analyze_response (\<lambda>ok url st s. s)\<rparr>)
          ''hello'' (Some ''fr'') (''c'', 0)) = Inl (DictionaryApiError 500 ''/entries/fr/hello'' (JStr ''x'')) \<and>
   fst (fetch_json ((sample_client sample_table)\<lparr>analyze_response := spec_analyze_response (\<lambda>ok url st s. s)\<rparr>)
          ''helo'' (Some ''fr'') (''c'', 0)) =
     Inl (DictionaryApiError 500 ''/entries/fr/helo'' (JStr ''unexpected error''))"
  using fetch_json_status_policy [of "sample_client sample_table" "''hello''" None "(''c'', 0)" "''/entries/en/hello''"
      "''en''" "(''c'', 0)" 200 hello_body "(''c'', 1)" "\<lambda>ok url st s. s"]
    fetch_json_status_policy [of "sample_client sample_table" "''helo''" None "(''c'', 0)" "''/entries/en/helo''"
      "''en''" "(''c'', 0)" 404 "JDict [(''message'', JStr ''No Definitions Found'')]"
      "(''c'', 1)" "\<lambda>ok url st s. s"]
    fetch_json_status_policy [of "sample_client sample_table" "''hello''" "Some ''fr''" "(''c'', 0)" "''/entries/fr/hello''"
      "''fr''" "(''c'', 0)" 500 "JDict [(''message'', JStr ''x'')]" "(''c'', 1)" "\<lambda>ok url st s. s"]
    fetch_json_status_policy [of "sample_client sample_table" "''helo''" "Some ''fr''" "(''c'', 0)" "''/entries/fr/helo''"
      "''fr''" "(''c'', 0)" 500 "JDict []" "(''c'', 1)" "\<lambda>ok url st s. s"]
  by (simp add: sample_defs)

subsection \<open>Failures propagate\<close>

text \<open>
  Claim C3. An exception raised by the transport primitive, or by the response analyzer,
  during \<^verbatim>\<open>fetch_json\<close>, \<^verbatim>\<open>fetch_parser\<close> or \<^verbatim>\<open>fetch_word\<close> reaches the caller
  of that method unchanged: the method raises the very same exception, in the state the
  failing call left, and the failing call is the last call of the run. Nothing catches,
  wraps, replaces or suppresses the exception, and nothing is tried again.
\<close>

theorem fetch_failures_propagate:
  assumes "generate_url self word language_code s0 = (Inr (url, resolved), s1)"
    and "s2 = logger_info self word resolved url s1"
  shows "(fetch_api_response self url s2 = (Inl e, s3) \<longrightarrow>
            fetch_json self word language_code s0 = (Inl e, s3) \<and>
            fetch_parser self word language_code s0 = (Inl e, s3) \<and>
            fetch_word self word language_code s0 = (Inl e, s3) \<and>
            calls_of fetch_word self word language_code s0 =
              [GenerateUrl word language_code, LoggerInfo word resolved url,
               FetchApiResponse url]) \<and>
         (fetch_api_response self url s2 = (Inr (status_code, body), s3) \<and>
          analyze_response self url status_code body s3 = (Inl e, s4) \<longrightarrow>
            fetch_json self word language_code s0 = (Inl e, s4) \<and>
            fetch_parser self word language_code s0 = (Inl e, s4) \<and>
            fetch_word self word language_code s0 = (Inl e, s4) \<and>
            calls_of fetch_word self word language_code s0 =
              [GenerateUrl word language_code, LoggerInfo word resolved url,
               FetchApiResponse url, AnalyzeResponse url status_code body])"
  using assms
  by (simp add: fetch_json_def fetch_parser_def fetch_word_def calls_of_fetch_word
      calls_of_fetch_json)

theorem fetch_failures_propagate_witness:
  "fetch_word (sample_client sample_table) ''hxlo'' None (''c'', 0) =
     (Inl (TransportFailure ''connection refused''), ''c'', 1) \<and>
   calls_of fetch_word (sample_client sample_table) ''hxlo'' None (''c'', 0) =
     [GenerateUrl ''hxlo'' None, LoggerInfo ''hxlo'' ''en'' ''/entries/en/hxlo'',
      FetchApiResponse ''/entries/en/hxlo''] \<and>
   fetch_word (sample_client sample_table) ''helo'' None (''c'', 0) =
     (Inl (WordNotFoundError ''/entries/en/helo''), ''c'', 1) \<and>
   fetch_parser (sample_client sample_table) ''helo'' None (''c'', 0) =
     (Inl (WordNotFoundError ''/entries/en/helo''), ''c'', 1) \<and>
   fetch_json (sample_client sample_table) ''helo'' None (''c'', 0) =
     (Inl (WordNotFoundError ''/entries/en/helo''), ''c'', 1)"
  using fetch_failures_propagate [of "sample_client sample_table" "''hxlo''" None "(''c'', 0)"
      "''/entries/en/hxlo''" "''en''" "(''c'', 0)" "(''c'', 0)"
      "TransportFailure ''connection refused''" "(''c'', 1)"]
    fetch_failures_propagate [of "sample_client sample_table" "''helo''" None "(''c'', 0)"
      "''/entries/en/helo''" "''en''" "(''c'', 0)" "(''c'', 0)"
      "WordNotFoundError ''/entries/en/helo''" "(''c'', 1)" 404
      "JDict [(''message'', JStr ''No Definitions Found'')]" "(''c'', 1)"]
  by (simp add: sample_defs)

subsection \<open>\<^verbatim>\<open>fetch_word\<close> and \<^verbatim>\<open>fetch_parser\<close>\<close>

text \<open>
  Claim C4. What \<^verbatim>\<open>fetch_word\<close> returns is exactly the \<^verbatim>\<open>.word\<close> of the parser
  object that \<^verbatim>\<open>fetch_parser\<close> returns for the same arguments, and it does nothing
  else: the state is the one \<^verbatim>\<open>fetch_parser\<close> left, and the calls are those of
  \<^verbatim>\<open>fetch_parser\<close>.
\<close>

theorem fetch_word_is_parser_word:
  assumes "fetch_parser self word language_code s0 = (Inr parser, s1)"
  shows "fetch_word self word language_code s0 = (parser_word self parser, s1) \<and>
         calls_of fetch_word self word language_code s0 =
           calls_of fetch_parser self word language_code s0"
  using assms by (simp add: fetch_word_def calls_of_fetch_word calls_of_fetch_parser)

theorem fetch_word_is_parser_word_witness:
  "fetch_parser (sample_client sample_table) ''hello'' None (''c'', 0) = (Inr hello_body, ''c'', 1) \<and>
   fetch_word (sample_client sample_table) ''hello'' None (''c'', 0) = (Inr ''hello'', ''c'', 1) \<and>
   calls_of fetch_word (sample_client sample_table) ''hello'' None (''c'', 0) =
     calls_of fetch_parser (sample_client sample_table) ''hello'' None (''c'', 0)"
  using fetch_word_is_parser_word [of "sample_client sample_table" "''hello''" None "(''c'', 0)"
      hello_body "(''c'', 1)"]
  by (simp add: sample_defs fetch_parser_def fetch_json_def)

text \<open>
  Claim C5. \<^verbatim>\<open>fetch_parser\<close> returns the parser object constructed from exactly the
  value \<^verbatim>\<open>fetch_json\<close> returns for the same arguments: the decoded body goes to the
  constructor unmodified, with no further call and no change of the state. The object
  gives the parsed result through its \<^verbatim>\<open>.word\<close> accessor, which is what
  \<^verbatim>\<open>fetch_word\<close> reads from it.
\<close>

theorem fetch_parser_wraps_fetch_json:
  assumes "fetch_json self word language_code s0 = (Inr json_response, s1)"
  shows "fetch_parser self word language_code s0 = (DictionaryApiParser self json_response, s1) \<and>
         calls_of fetch_parser self word language_code s0 =
           calls_of fetch_json self word language_code s0 \<and>
         (\<forall>parser. DictionaryApiParser self json_response = Inr parser \<longrightarrow>
            fetch_word self word language_code s0 = (parser_word self parser, s1))"
  using assms by (simp add: fetch_parser_def fetch_word_def calls_of_fetch_parser)

theorem fetch_parser_wraps_fetch_json_witness:
  "fetch_json (sample_client sample_table) ''hello'' None (''c'', 0) = (Inr hello_body, ''c'', 1) \<and>
   fetch_parser (sample_client sample_table) ''hello'' None (''c'', 0) = (Inr hello_body, ''c'', 1) \<and>
   fetch_word (sample_client sample_table) ''hello'' None (''c'', 0) = (Inr ''hello'', ''c'', 1)"
  using fetch_parser_wraps_fetch_json [of "sample_client sample_table" "''hello''" None "(''c'', 0)"
      hello_body "(''c'', 1)"]
  by (simp add: sample_defs fetch_json_def)

subsection \<open>One request per call\<close>



subsection \<open>The transport primitive is the only variation\<close>



subsection \<open>The default language code\<close>



subsection \<open>The client object is not written\<close>



subsection \<open>Determinism\<close>



end
